theory Spec2Isabelle
  imports Main
begin

section \<open>The weather analysis script as a function of its environment\<close>

text \<open>
  The script \<^verbatim>\<open>weather-analysis-script.py\<close> runs top to bottom once. Everything it
  does is an effect on the outside world: it starts processes, talks to the query service,
  prints and plots. The embedding makes the outside world an explicit argument (a record of
  the answers the world gives to the script's calls) and the effects an explicit result: the
  list of effects in the order the statements perform them, together with the exception
  that ended the run, if one did.

  Library calls whose failure the script neither handles nor is specified for (printing,
  the plotting calls, the pandas summaries) are effects that return normally. The calls
  that can fail in the model are the ones the script's control flow depends on: the
  imports, the two subprocess calls (a process that cannot be launched, a non-zero exit
  status, captured output that does not decode) and the query.
\<close>

subsection \<open>Text\<close>

text \<open>
  A Python \<^verbatim>\<open>str\<close> is a sequence of Unicode code points. The helper's decoded standard
  output and the token made from it are modelled so. Names fixed by the script (the
  command line, column names, labels, the SQL text) are plain strings.
\<close>

type_synonym pystr = "nat list"

text \<open>
  \<^verbatim>\<open>str.isspace\<close> on one code point: the code points Python classifies as whitespace.
\<close>

definition isspace :: "nat \<Rightarrow> bool" where
  "isspace c =
     ((9 \<le> c \<and> c \<le> 13) \<or> (28 \<le> c \<and> c \<le> 32) \<or> c = 133 \<or> c = 160 \<or> c = 5760 \<or>
      (8192 \<le> c \<and> c \<le> 8202) \<or> c = 8232 \<or> c = 8233 \<or> c = 8239 \<or> c = 8287 \<or> c = 12288)"

text \<open>\<^verbatim>\<open>s.strip()\<close>: drop the whitespace at both ends.\<close>

definition strip :: "pystr \<Rightarrow> pystr" where
  "strip s = rev (dropWhile isspace (rev (dropWhile isspace s)))"

subsection \<open>Exceptions and processes\<close>

datatype os_error = FileNotFoundError | PermissionError | OtherOSError

datatype exn =
    ImportError
  | CalledProcessError "string list" int
  | OSError os_error
  | UnicodeDecodeError
  | KeyError string
  | QueryFailed
  | FetchFailed

text \<open>
  What the world answers when a process is started: it cannot be launched, or it runs and
  exits with a return code. What it wrote either decodes as text in the encoding of the
  locale, and then the standard output is that text, or it does not (standard output or
  standard error holds bytes that are no text).
\<close>

datatype captured = Text pystr | Undecodable

datatype process = CannotLaunch os_error | Exited int captured

text \<open>
  \<^verbatim>\<open>subprocess.check_call(argv)\<close>: a process that cannot be launched raises an
  \<^verbatim>\<open>OSError\<close>, a non-zero return code raises \<^verbatim>\<open>CalledProcessError\<close>. The output is not
  captured and so never decoded.
\<close>

fun check_call :: "string list \<Rightarrow> process \<Rightarrow> exn + unit" where
  "check_call argv (CannotLaunch e) = Inl (OSError e)"
| "check_call argv (Exited rc out) =
     (if rc \<noteq> 0 then Inl (CalledProcessError argv rc) else Inr ())"

text \<open>
  \<^verbatim>\<open>subprocess.run(argv, capture_output=True, text=True, check=True)\<close>: a process that
  cannot be launched raises an \<^verbatim>\<open>OSError\<close>. Otherwise the captured output is decoded first,
  which raises \<^verbatim>\<open>UnicodeDecodeError\<close> on bytes that are no text, whatever the return code;
  only then is the return code checked, and a non-zero one raises \<^verbatim>\<open>CalledProcessError\<close>.
  The value returned is the standard output as text.
\<close>

fun subprocess_run :: "string list \<Rightarrow> process \<Rightarrow> exn + pystr" where
  "subprocess_run argv (CannotLaunch e) = Inl (OSError e)"
| "subprocess_run argv (Exited rc Undecodable) = Inl UnicodeDecodeError"
| "subprocess_run argv (Exited rc (Text out)) =
     (if rc \<noteq> 0 then Inl (CalledProcessError argv rc) else Inr out)"

subsection \<open>The table\<close>

text \<open>
  The dataframe: a number of rows and named columns, each a list of cells; a null cell is
  \<open>None\<close>. The cell values are left abstract (\<open>'v\<close>).
\<close>

record 'v dataframe =
  nrows :: nat
  cols :: "(string \<times> 'v option list) list"

definition columns :: "'v dataframe \<Rightarrow> string list" where
  "columns df = map fst (cols df)"

definition len :: "'v dataframe \<Rightarrow> nat" where
  "len df = nrows df"

text \<open>\<^verbatim>\<open>df[name]\<close>: the column, or \<^verbatim>\<open>KeyError\<close>.\<close>

definition getitem :: "'v dataframe \<Rightarrow> string \<Rightarrow> exn + 'v option list" where
  "getitem df name =
     (case map_of (cols df) name of None \<Rightarrow> Inl (KeyError name) | Some vs \<Rightarrow> Inr vs)"

text \<open>\<^verbatim>\<open>s[s.notna()]\<close>: the cells that are not null.\<close>

definition notna :: "'v option list \<Rightarrow> 'v list" where
  "notna vs = [v. Some v \<leftarrow> vs]"

text \<open>\<^verbatim>\<open>df.head()\<close>: the first five rows.\<close>

definition head :: "'v dataframe \<Rightarrow> 'v dataframe" where
  "head df = \<lparr>nrows = min 5 (nrows df), cols = map (\<lambda>(n, vs). (n, take 5 vs)) (cols df)\<rparr>"

text \<open>\<^verbatim>\<open>s.unique()\<close>: the distinct values, each at the place of its first occurrence.\<close>

definition unique :: "'a list \<Rightarrow> 'a list" where
  "unique xs = rev (remdups (rev xs))"

text \<open>
  \<^verbatim>\<open>s.value_counts()\<close>: each distinct non-null value with the number of its occurrences,
  most frequent first; equally frequent values stay in the order of their first
  occurrence (the sort is stable).
\<close>

definition value_counts :: "'v option list \<Rightarrow> ('v \<times> nat) list" where
  "value_counts vs =
     sort_key (\<lambda>(v, c). - int c) (map (\<lambda>v. (v, count_list (notna vs) v)) (unique (notna vs)))"

definition nunique :: "'v option list \<Rightarrow> nat" where
  "nunique vs = length (remdups (notna vs))"

subsection \<open>Effects\<close>

type_synonym kwargs = "(string \<times> string) list"

text \<open>
  What the script prints. Each constructor is one \<^verbatim>\<open>print\<close> statement of the source; its
  arguments are the values the statement formats into the line.
\<close>

datatype 'v message =
    MsgError exn
  | MsgTokenObtained
  | MsgClientReady
  | MsgExecuting
  | MsgRetrieved nat
  | MsgColumns "string list"
  | MsgFirstRows
  | MsgHead "'v dataframe"
  | MsgDatasetInfo
  | MsgStatSummary
  | MsgDescribe "'v dataframe"
  | MsgUniqueStations nat
  | MsgTopStations
  | MsgStationLine nat 'v nat
  | MsgComplete
  | MsgFailed

datatype 'v event =
    CheckCall "string list"
  | SubprocessRun "string list"
  | FilterWarnings string
  | StyleUse string
  | SetPalette string
  | RcParams string "nat \<times> nat"
  | Print "'v message"
  | Credentials "pystr option"
  | Client "pystr option" string
  | Query string
  | ToDataframe
  | DfInfo "'v dataframe"
  | Subplots nat nat "nat \<times> nat"
  | Suptitle string nat
  | Hist "nat \<times> nat" "'v list" kwargs
  | AxSetTitle "nat \<times> nat" string
  | AxSetXlabel "nat \<times> nat" string
  | AxSetYlabel "nat \<times> nat" string
  | TightLayout
  | Show
  | Figure "nat \<times> nat"
  | BarPlot "('v \<times> nat) list" kwargs
  | Title string
  | Xlabel string
  | Ylabel string
  | Xticks kwargs
  | Grid kwargs

text \<open>
  A piece of the script yields the effects it performed and, when an exception left it,
  that exception. Statements in sequence: the effects add up, and the first exception ends
  the sequence.
\<close>

type_synonym 'v result = "'v event list \<times> exn option"

fun run_steps :: "'v result list \<Rightarrow> 'v result" where
  "run_steps [] = ([], None)"
| "run_steps ((t, Some e) # rest) = (t, Some e)"
| "run_steps ((t, None) # rest) = (t @ fst (run_steps rest), snd (run_steps rest))"

subsection \<open>The world\<close>

text \<open>
  What the query service does at line 61: the submission raises, or the conversion of the
  result raises, or a table comes back.
\<close>

datatype 'v query_outcome = QueryRaises | ToDataframeRaises | Returns "'v dataframe"

text \<open>
  The answers of the world to the script, in the order the script asks: whether
  \<^verbatim>\<open>import pandas\<close> succeeds at line 14; the interpreter's path and the outcome of the
  installer process of line 16, asked for only when that import fails; whether the imports
  of lines 17 to 24 succeed; the outcome of the helper process of line 34; the outcome of
  the query of line 61.
\<close>

record 'v world =
  pandas_importable :: bool
  sys_executable :: string
  pip :: process
  imports_ok :: bool
  helper :: process
  query_result :: "'v query_outcome"

subsection \<open>Lines 13 to 30: packages, imports, plotting set-up\<close>

definition pip_argv :: "string \<Rightarrow> string list" where
  "pip_argv exe =
     [exe, ''-m'', ''pip'', ''install'', ''--break-system-packages'', ''pandas'', ''matplotlib'',
      ''seaborn'', ''google-cloud-bigquery'', ''db-dtypes'', ''pyarrow'']"

text \<open>
  Lines 13 to 16: \<^verbatim>\<open>import pandas\<close>; on \<^verbatim>\<open>ImportError\<close> the packages are installed with
  \<^verbatim>\<open>subprocess.check_call\<close>, whose exception nothing catches.
\<close>

definition install_packages :: "'v world \<Rightarrow> 'v result" where
  "install_packages w =
     (if pandas_importable w then ([], None)
      else (case check_call (pip_argv (sys_executable w)) (pip w) of
              Inl e \<Rightarrow> ([CheckCall (pip_argv (sys_executable w))], Some e)
            | Inr u \<Rightarrow> ([CheckCall (pip_argv (sys_executable w))], None)))"

text \<open>Lines 17 to 24: the imports proper. One that fails ends the script.\<close>

definition import_modules :: "'v world \<Rightarrow> 'v result" where
  "import_modules w = (if imports_ok w then ([], None) else ([], Some ImportError))"

text \<open>Lines 25 to 30. They consult nothing; the argument only fixes the type.\<close>

definition setup_plotting :: "'v world \<Rightarrow> 'v result" where
  "setup_plotting w =
     ([FilterWarnings ''ignore'', StyleUse ''default'', SetPalette ''husl'',
       RcParams ''figure.figsize'' (12, 8)], None)"

subsection \<open>Lines 32 to 43: the access token\<close>

definition helper_argv :: "string list" where
  "helper_argv = [''coder'', ''external-auth'', ''access-token'', ''gcp'']"

text \<open>
  \<^verbatim>\<open>get_access_token\<close> returns the stripped standard output, or \<^verbatim>\<open>None\<close> after printing
  the \<^verbatim>\<open>CalledProcessError\<close> it caught. Its \<^verbatim>\<open>except\<close> clause names that exception only:
  any other one leaves the function.
\<close>

definition get_access_token :: "process \<Rightarrow> 'v event list \<times> (exn + pystr option)" where
  "get_access_token p =
     (case subprocess_run helper_argv p of
        Inr out \<Rightarrow> ([SubprocessRun helper_argv], Inr (Some (strip out)))
      | Inl (CalledProcessError cmd rc) \<Rightarrow>
          ([SubprocessRun helper_argv, Print (MsgError (CalledProcessError cmd rc))], Inr None)
      | Inl e \<Rightarrow> ([SubprocessRun helper_argv], Inl e))"

text \<open>\<^verbatim>\<open>if access_token:\<close> is false for \<^verbatim>\<open>None\<close> and for the empty string.\<close>

definition truthy :: "pystr option \<Rightarrow> bool" where
  "truthy t = (case t of None \<Rightarrow> False | Some s \<Rightarrow> s \<noteq> [])"

subsection \<open>Lines 48 to 75: client, query, summary\<close>

definition project :: string where
  "project = ''coder-vertex-demos''"

text \<open>The query text of lines 54 to 58, with its line breaks and indentation.\<close>

definition query :: string where
  "query = [CHR 0x0A] @ ''    SELECT * '' @ [CHR 0x0A] @
     ''    FROM `bigquery-public-data.samples.gsod` '' @ [CHR 0x0A] @
     ''    LIMIT 500'' @ [CHR 0x0A] @ ''    ''"

text \<open>Lines 48 to 51 and 60.\<close>

definition make_client :: "pystr option \<Rightarrow> 'v result" where
  "make_client access_token =
     ([Print MsgTokenObtained, Credentials access_token, Client access_token project,
       Print MsgClientReady, Print MsgExecuting], None)"

text \<open>
  Line 61: \<^verbatim>\<open>client.query(query).to_dataframe()\<close>. Either call may raise; nothing
  catches it.
\<close>

definition run_query :: "'v query_outcome \<Rightarrow> 'v event list \<times> (exn + 'v dataframe)" where
  "run_query q =
     (case q of
        QueryRaises \<Rightarrow> ([Query query], Inl QueryFailed)
      | ToDataframeRaises \<Rightarrow> ([Query query, ToDataframe], Inl FetchFailed)
      | Returns df \<Rightarrow> ([Query query, ToDataframe], Inr df))"

text \<open>Lines 62 to 75.\<close>

definition summarize :: "'v dataframe \<Rightarrow> 'v result" where
  "summarize df =
     ([Print (MsgRetrieved (len df)), Print (MsgColumns (columns df)),
       Print MsgFirstRows, Print (MsgHead (head df)),
       Print MsgDatasetInfo, DfInfo df,
       Print MsgStatSummary, Print (MsgDescribe df)], None)"

subsection \<open>Lines 78 to 114: the figure of four histograms\<close>

text \<open>Lines 78 and 79. The calls do not read the table.\<close>

definition open_figure :: "'v dataframe \<Rightarrow> 'v result" where
  "open_figure df =
     ([Subplots 2 2 (15, 10), Suptitle ''Weather Data Analysis - GSOD Dataset'' 16], None)"

definition hist_kwargs :: "string \<Rightarrow> kwargs" where
  "hist_kwargs color =
     [(''bins'', ''30''), (''alpha'', ''0.7''), (''color'', color), (''edgecolor'', ''black'')]"

text \<open>The degree sign of the temperature label, as its two UTF-8 bytes.\<close>

definition degree_sign :: string where
  "degree_sign = [CHR 0xC2, CHR 0xB0]"

text \<open>Lines 82 to 87.\<close>

definition temperature :: "'v dataframe \<Rightarrow> 'v result" where
  "temperature df =
     (if ''mean_temp'' \<in> set (columns df)
      then (case getitem df ''mean_temp'' of
              Inl e \<Rightarrow> ([], Some e)
            | Inr s \<Rightarrow>
                ([Hist (0, 0) (notna s) (hist_kwargs ''skyblue''),
                  AxSetTitle (0, 0) ''Mean Temperature Distribution'',
                  AxSetXlabel (0, 0) (''Temperature ('' @ degree_sign @ ''F)''),
                  AxSetYlabel (0, 0) ''Frequency''], None))
      else ([], None))"

text \<open>Lines 90 to 95.\<close>

definition precipitation :: "'v dataframe \<Rightarrow> 'v result" where
  "precipitation df =
     (if ''total_precipitation'' \<in> set (columns df)
      then (case getitem df ''total_precipitation'' of
              Inl e \<Rightarrow> ([], Some e)
            | Inr s \<Rightarrow>
                ([Hist (0, 1) (notna s) (hist_kwargs ''lightgreen''),
                  AxSetTitle (0, 1) ''Total Precipitation Distribution'',
                  AxSetXlabel (0, 1) ''Precipitation (inches)'',
                  AxSetYlabel (0, 1) ''Frequency''], None))
      else ([], None))"

text \<open>Lines 98 to 103.\<close>

definition wind_speed :: "'v dataframe \<Rightarrow> 'v result" where
  "wind_speed df =
     (if ''mean_wind_speed'' \<in> set (columns df)
      then (case getitem df ''mean_wind_speed'' of
              Inl e \<Rightarrow> ([], Some e)
            | Inr s \<Rightarrow>
                ([Hist (1, 0) (notna s) (hist_kwargs ''coral''),
                  AxSetTitle (1, 0) ''Mean Wind Speed Distribution'',
                  AxSetXlabel (1, 0) ''Wind Speed (knots)'',
                  AxSetYlabel (1, 0) ''Frequency''], None))
      else ([], None))"

text \<open>Lines 106 to 111.\<close>

definition visibility :: "'v dataframe \<Rightarrow> 'v result" where
  "visibility df =
     (if ''mean_visibility'' \<in> set (columns df)
      then (case getitem df ''mean_visibility'' of
              Inl e \<Rightarrow> ([], Some e)
            | Inr s \<Rightarrow>
                ([Hist (1, 1) (notna s) (hist_kwargs ''gold''),
                  AxSetTitle (1, 1) ''Mean Visibility Distribution'',
                  AxSetXlabel (1, 1) ''Visibility (miles)'',
                  AxSetYlabel (1, 1) ''Frequency''], None))
      else ([], None))"

text \<open>Lines 113 and 114.\<close>

definition show_figure :: "'v dataframe \<Rightarrow> 'v result" where
  "show_figure df = ([TightLayout, Show], None)"

subsection \<open>Lines 117 to 133: the stations\<close>

text \<open>Lines 132 and 133: one line for each of the stations, numbered from 1.\<close>

definition print_top_stations :: "('v \<times> nat) list \<Rightarrow> 'v event list" where
  "print_top_stations top_stations =
     map (\<lambda>(i, (station, count)). Print (MsgStationLine i station count))
       (enumerate 1 top_stations)"

text \<open>Lines 117 to 133.\<close>

definition station_analysis :: "'v dataframe \<Rightarrow> 'v result" where
  "station_analysis df =
     (if ''station_number'' \<in> set (columns df)
      then (case getitem df ''station_number'' of
              Inl e \<Rightarrow> ([], Some e)
            | Inr s \<Rightarrow>
                (let top_stations = take 10 (value_counts s) in
                 ([Figure (12, 6),
                   BarPlot top_stations
                     [(''kind'', ''bar''), (''color'', ''steelblue''), (''alpha'', ''0.8'')],
                   Title ''Top 10 Weather Stations by Number of Records'',
                   Xlabel ''Station ID'',
                   Ylabel ''Number of Records'',
                   Xticks [(''rotation'', ''45''), (''ha'', ''right'')],
                   Grid [(''axis'', ''y''), (''alpha'', ''0.3'')],
                   TightLayout,
                   Show,
                   Print (MsgUniqueStations (nunique s)),
                   Print MsgTopStations] @
                  print_top_stations top_stations, None)))
      else ([], None))"

subsection \<open>The script\<close>

text \<open>Lines 48 to 135: the branch taken when the token is truthy.\<close>

definition with_token :: "pystr option \<Rightarrow> 'v query_outcome \<Rightarrow> 'v result" where
  "with_token access_token q =
     run_steps
       [make_client access_token,
        (case run_query q of
           (t, Inl e) \<Rightarrow> (t, Some e)
         | (t, Inr df) \<Rightarrow>
             run_steps
               [(t, None), summarize df, open_figure df, temperature df, precipitation df,
                wind_speed df, visibility df, show_figure df, station_analysis df,
                ([Print MsgComplete], None)])]"

text \<open>Lines 46 to 138: the token, the guard and its two branches.\<close>

definition main :: "'v world \<Rightarrow> 'v result" where
  "main w =
     (case get_access_token (helper w) of
        (t, Inl e) \<Rightarrow> (t, Some e)
      | (t, Inr access_token) \<Rightarrow>
          run_steps
            [(t, None),
             (if truthy access_token then with_token access_token (query_result w)
              else ([Print MsgFailed], None))])"

text \<open>The whole file, top to bottom.\<close>

definition script :: "'v world \<Rightarrow> 'v result" where
  "script w = run_steps [install_packages w, import_modules w, setup_plotting w, main w]"

section \<open>Vocabulary for the properties\<close>

text \<open>
  The definitions below are not part of the script. They name what the properties speak
  about: the part of the script before the token is requested, the printed messages, the
  queries submitted, and the source lines of the effects.
\<close>

text \<open>Lines 13 to 30, everything before line 46.\<close>

definition startup :: "'v world \<Rightarrow> 'v result" where
  "startup w = run_steps [install_packages w, import_modules w, setup_plotting w]"

text \<open>
  The script passes its guard at line 47: the start-up raised nothing, the helper exited
  with status zero, and its output is text and more than whitespace.
\<close>

definition token_obtained :: "'v world \<Rightarrow> bool" where
  "token_obtained w =
     (snd (startup w) = None \<and>
      (case helper w of
         CannotLaunch e \<Rightarrow> False
       | Exited rc Undecodable \<Rightarrow> False
       | Exited rc (Text out) \<Rightarrow> rc = 0 \<and> strip out \<noteq> []))"

definition printed :: "'v event list \<Rightarrow> 'v message list" where
  "printed t = [m. Print m \<leftarrow> t]"

definition queries :: "'v event list \<Rightarrow> string list" where
  "queries t = [q. Query q \<leftarrow> t]"

text \<open>Building the credentials and the client.\<close>

fun is_client :: "'v event \<Rightarrow> bool" where
  "is_client (Credentials tok) = True"
| "is_client (Client tok p) = True"
| "is_client e = False"

text \<open>Talking to the query service.\<close>

fun is_query :: "'v event \<Rightarrow> bool" where
  "is_query (Query q) = True"
| "is_query ToDataframe = True"
| "is_query e = False"

text \<open>The five outputs that show the table: lines 62, 63, 67, 71 and 75.\<close>

fun is_summary :: "'v event \<Rightarrow> bool" where
  "is_summary (Print (MsgRetrieved n)) = True"
| "is_summary (Print (MsgColumns cs)) = True"
| "is_summary (Print (MsgHead df)) = True"
| "is_summary (DfInfo df) = True"
| "is_summary (Print (MsgDescribe df)) = True"
| "is_summary e = False"

text \<open>A chart: a histogram or the bar plot.\<close>

fun is_chart :: "'v event \<Rightarrow> bool" where
  "is_chart (Hist ax vs kw) = True"
| "is_chart (BarPlot ts kw) = True"
| "is_chart e = False"

text \<open>A call on one of the four axes of the grid.\<close>

fun on_axes :: "'v event \<Rightarrow> bool" where
  "on_axes (Hist ax vs kw) = True"
| "on_axes (AxSetTitle ax s) = True"
| "on_axes (AxSetXlabel ax s) = True"
| "on_axes (AxSetYlabel ax s) = True"
| "on_axes e = False"

text \<open>Any call of the plotting library from line 78 on.\<close>

fun is_plot :: "'v event \<Rightarrow> bool" where
  "is_plot (Subplots r c sz) = True"
| "is_plot (Suptitle s n) = True"
| "is_plot (Hist ax vs kw) = True"
| "is_plot (AxSetTitle ax s) = True"
| "is_plot (AxSetXlabel ax s) = True"
| "is_plot (AxSetYlabel ax s) = True"
| "is_plot TightLayout = True"
| "is_plot Show = True"
| "is_plot (Figure sz) = True"
| "is_plot (BarPlot ts kw) = True"
| "is_plot (Title s) = True"
| "is_plot (Xlabel s) = True"
| "is_plot (Ylabel s) = True"
| "is_plot (Xticks kw) = True"
| "is_plot (Grid kw) = True"
| "is_plot e = False"

text \<open>The work the guard at line 47 protects.\<close>

definition is_work :: "'v event \<Rightarrow> bool" where
  "is_work e = (is_client e \<or> is_query e \<or> is_summary e \<or> is_plot e)"

text \<open>The cells of a column that is there; no cells for one that is not.\<close>

definition column :: "'v dataframe \<Rightarrow> string \<Rightarrow> 'v option list" where
  "column df name = (case getitem df name of Inl e \<Rightarrow> [] | Inr s \<Rightarrow> s)"

text \<open>Splitting a text at blanks and line breaks.\<close>

fun split_ws :: "string \<Rightarrow> string \<Rightarrow> string list" where
  "split_ws acc [] = (if acc = [] then [] else [rev acc])"
| "split_ws acc (c # cs) =
     (if c = CHR '' '' \<or> c = CHR 0x0A
      then (if acc = [] then split_ws [] cs else rev acc # split_ws [] cs)
      else split_ws (c # acc) cs)"

text \<open>Lines 62 to 135: what the script does with the table, in order.\<close>

definition analysis :: "'v dataframe \<Rightarrow> 'v event list" where
  "analysis df =
     fst (summarize df) @ fst (open_figure df) @ fst (temperature df) @
     fst (precipitation df) @ fst (wind_speed df) @ fst (visibility df) @
     fst (show_figure df) @ fst (station_analysis df) @ [Print MsgComplete]"

text \<open>
  \<^verbatim>\<open>df.shape\<close>: the number of rows and the number of columns. The script does not read it.
\<close>

definition shape :: "'v dataframe \<Rightarrow> nat \<times> nat" where
  "shape df = (nrows df, length (cols df))"

subsection \<open>Control paths\<close>








text \<open>
  The branch conditions of the script. Each is a question the script puts to the world
  at one place; in a run that does not get to that place the question is not put, and the
  condition then has a fixed value that says so.
\<close>

text \<open>
  Lines 13 to 30 raise nothing: \<^verbatim>\<open>pandas\<close> imports or the installer exits with status zero
  (it is only started when the import fails), and then the imports of lines 17 to 24
  succeed.
\<close>

definition exits_zero :: "process \<Rightarrow> bool" where
  "exits_zero p = (case p of CannotLaunch e \<Rightarrow> False | Exited rc out \<Rightarrow> rc = 0)"

definition starts :: "'v world \<Rightarrow> bool" where
  "starts w = ((pandas_importable w \<or> exits_zero (pip w)) \<and> imports_ok w)"



text \<open>The guard at line 47 is reached and the token it tests is truthy.\<close>

definition guard :: "'v world \<Rightarrow> bool" where
  "guard w =
     (starts w \<and>
      (case snd (get_access_token (helper w) :: 'v event list \<times> (exn + pystr option)) of
         Inl e \<Rightarrow> False
       | Inr access_token \<Rightarrow> truthy access_token))"








subsection \<open>Concrete worlds\<close>

text \<open>
  Four small tables: one with two of the fixed columns and two stations seen twice each;
  the same without the temperature column; one with a single station; one of six rows,
  more than \<^verbatim>\<open>head\<close> shows, and with none of the fixed columns.
\<close>

definition sample_table :: "nat dataframe" where
  "sample_table =
     \<lparr>nrows = 4,
      cols = [(''station_number'', [Some 7, Some 9, Some 9, Some 7]),
              (''mean_temp'', [Some 1, None, Some 2, Some 3])]\<rparr>"

definition narrow_table :: "nat dataframe" where
  "narrow_table = \<lparr>nrows = 4, cols = [(''station_number'', [Some 7, Some 9, Some 9, Some 7])]\<rparr>"


definition long_table :: "nat dataframe" where
  "long_table =
     \<lparr>nrows = 6, cols = [(''year'', [Some 1, Some 2, Some 3, Some 4, Some 5, Some 6])]\<rparr>"

text \<open>A world in which every call succeeds.\<close>

definition sample_world :: "nat world" where
  "sample_world =
     \<lparr>pandas_importable = True, sys_executable = ''/usr/bin/python3'', pip = Exited 0 (Text []),
      imports_ok = True, helper = Exited 0 (Text [116, 111, 107, 10]),
      query_result = Returns sample_table\<rparr>"

section \<open>Properties\<close>

subsection \<open>Sequencing and the pieces of the script\<close>

lemma run_steps_pair:
  "run_steps [a, b] = (case snd a of Some e \<Rightarrow> a | None \<Rightarrow> (fst a @ fst b, snd b))"
  by (cases a; cases b; cases "snd a"; cases "snd b") auto

lemma run_steps_Cons:
  "run_steps (a # rest) =
     (case snd a of Some e \<Rightarrow> a | None \<Rightarrow> (fst a @ fst (run_steps rest), snd (run_steps rest)))"
  by (cases a; cases "snd a") auto

lemma run_steps_single: "run_steps [a] = a"
  by (cases a; cases "snd a") auto

lemma script_startup: "script w = run_steps [startup w, main w]"
  by (simp add: script_def startup_def run_steps_Cons run_steps_single split: option.splits)

lemma script_stopped: "snd (startup w) = Some e \<Longrightarrow> script w = startup w"
  by (simp add: script_startup run_steps_pair)

lemma script_started:
  "snd (startup w) = None \<Longrightarrow> script w = (fst (startup w) @ fst (main w), snd (main w))"
  by (simp add: script_startup run_steps_pair)

lemma startup_events:
  "fst (startup w) = [] \<or> fst (startup w) = [CheckCall (pip_argv (sys_executable w))]
   \<or> fst (startup w) = fst (setup_plotting w)
   \<or> fst (startup w) = CheckCall (pip_argv (sys_executable w)) # fst (setup_plotting w)"
  by (cases "pip w")
     (simp_all add: startup_def install_packages_def import_modules_def setup_plotting_def
        run_steps_Cons)

lemma startup_printed: "printed (fst (startup w)) = []"
  using startup_events [of w] by (auto simp: printed_def setup_plotting_def)

lemma startup_work: "filter is_work (fst (startup w)) = []"
  using startup_events [of w] by (auto simp: is_work_def setup_plotting_def)

lemma startup_helper: "count_list (fst (startup w)) (SubprocessRun helper_argv) = 0"
  using startup_events [of w] by (auto simp: setup_plotting_def)

lemma getitem_present:
  "name \<in> set (columns df) \<Longrightarrow> getitem df name = Inr (column df name)"
  by (auto simp: getitem_def column_def columns_def map_of_eq_None_iff split: option.splits)

lemma temperature_eq:
  "temperature df =
     (if ''mean_temp'' \<in> set (columns df)
      then ([Hist (0, 0) (notna (column df ''mean_temp'')) (hist_kwargs ''skyblue''),
             AxSetTitle (0, 0) ''Mean Temperature Distribution'',
             AxSetXlabel (0, 0) (''Temperature ('' @ degree_sign @ ''F)''),
             AxSetYlabel (0, 0) ''Frequency''], None)
      else ([], None))"
  by (simp add: temperature_def getitem_present)

lemma precipitation_eq:
  "precipitation df =
     (if ''total_precipitation'' \<in> set (columns df)
      then ([Hist (0, 1) (notna (column df ''total_precipitation'')) (hist_kwargs ''lightgreen''),
             AxSetTitle (0, 1) ''Total Precipitation Distribution'',
             AxSetXlabel (0, 1) ''Precipitation (inches)'',
             AxSetYlabel (0, 1) ''Frequency''], None)
      else ([], None))"
  by (simp add: precipitation_def getitem_present)

lemma wind_speed_eq:
  "wind_speed df =
     (if ''mean_wind_speed'' \<in> set (columns df)
      then ([Hist (1, 0) (notna (column df ''mean_wind_speed'')) (hist_kwargs ''coral''),
             AxSetTitle (1, 0) ''Mean Wind Speed Distribution'',
             AxSetXlabel (1, 0) ''Wind Speed (knots)'',
             AxSetYlabel (1, 0) ''Frequency''], None)
      else ([], None))"
  by (simp add: wind_speed_def getitem_present)

lemma visibility_eq:
  "visibility df =
     (if ''mean_visibility'' \<in> set (columns df)
      then ([Hist (1, 1) (notna (column df ''mean_visibility'')) (hist_kwargs ''gold''),
             AxSetTitle (1, 1) ''Mean Visibility Distribution'',
             AxSetXlabel (1, 1) ''Visibility (miles)'',
             AxSetYlabel (1, 1) ''Frequency''], None)
      else ([], None))"
  by (simp add: visibility_def getitem_present)

lemma blocks_return:
  "snd (temperature df) = None" "snd (precipitation df) = None"
  "snd (wind_speed df) = None" "snd (visibility df) = None"
  by (simp_all add: temperature_eq precipitation_eq wind_speed_eq visibility_eq)

lemma station_analysis_return: "snd (station_analysis df) = None"
  by (simp add: station_analysis_def getitem_present Let_def)

lemma with_token_returns:
  "with_token tok (Returns df) =
     (fst (make_client tok) @ [Query query, ToDataframe] @ fst (summarize df) @
      fst (open_figure df) @ fst (temperature df) @ fst (precipitation df) @
      fst (wind_speed df) @ fst (visibility df) @ fst (show_figure df) @
      fst (station_analysis df) @ [Print MsgComplete], None)"
  by (simp add: with_token_def run_query_def run_steps_Cons blocks_return
      station_analysis_return make_client_def summarize_def open_figure_def show_figure_def)

lemma with_token_query_raises:
  "with_token tok QueryRaises = (fst (make_client tok) @ [Query query], Some QueryFailed)"
  by (simp add: with_token_def run_query_def run_steps_Cons make_client_def)

lemma with_token_fetch_raises:
  "with_token tok ToDataframeRaises =
     (fst (make_client tok) @ [Query query, ToDataframe], Some FetchFailed)"
  by (simp add: with_token_def run_query_def run_steps_Cons make_client_def)

lemma main_cannot_launch:
  "helper w = CannotLaunch e \<Longrightarrow> main w = ([SubprocessRun helper_argv], Some (OSError e))"
  by (simp add: main_def get_access_token_def)

lemma main_undecodable:
  "helper w = Exited rc Undecodable \<Longrightarrow>
   main w = ([SubprocessRun helper_argv], Some UnicodeDecodeError)"
  by (simp add: main_def get_access_token_def)

lemma main_nonzero:
  "helper w = Exited rc (Text out) \<Longrightarrow> rc \<noteq> 0 \<Longrightarrow>
   main w = ([SubprocessRun helper_argv, Print (MsgError (CalledProcessError helper_argv rc)),
              Print MsgFailed], None)"
  by (simp add: main_def get_access_token_def truthy_def run_steps_Cons)

lemma main_blank:
  "helper w = Exited 0 (Text out) \<Longrightarrow> strip out = [] \<Longrightarrow>
   main w = ([SubprocessRun helper_argv, Print MsgFailed], None)"
  by (simp add: main_def get_access_token_def truthy_def run_steps_Cons)

lemma main_token:
  "helper w = Exited 0 (Text out) \<Longrightarrow> strip out \<noteq> [] \<Longrightarrow>
   main w = (SubprocessRun helper_argv # fst (with_token (Some (strip out)) (query_result w)),
             snd (with_token (Some (strip out)) (query_result w)))"
  by (simp add: main_def get_access_token_def truthy_def run_steps_Cons split: option.splits)

subsection \<open>Stripping\<close>

lemma strip_blank: "(strip s = []) = list_all isspace s"
proof (cases "dropWhile isspace s")
  case Nil
  then have "\<forall>x\<in>set s. isspace x"
    by (simp add: dropWhile_eq_Nil_conv)
  then show ?thesis
    unfolding strip_def Nil by (simp add: list_all_iff)
next
  case (Cons a as)
  then have "\<not> isspace a"
    using hd_dropWhile [of isspace s] by simp
  moreover have "a \<in> set (dropWhile isspace s)" "a \<in> set s"
    using Cons set_dropWhileD [of a isspace s] by simp_all
  ultimately show ?thesis
    by (auto simp: strip_def list_all_iff dropWhile_eq_Nil_conv)
qed

lemma strip_decomp:
  "s = takeWhile isspace s @ strip s @ rev (takeWhile isspace (rev (dropWhile isspace s)))"
proof -
  let ?d = "dropWhile isspace s"
  have "?d = rev (dropWhile isspace (rev ?d)) @ rev (takeWhile isspace (rev ?d))"
    by (metis rev_append rev_rev_ident takeWhile_dropWhile_id)
  then have "?d = strip s @ rev (takeWhile isspace (rev ?d))"
    by (simp add: strip_def)
  moreover have "s = takeWhile isspace s @ ?d"
    by simp
  ultimately show ?thesis by simp
qed

lemma strip_surrounded:
  "\<exists>l r. s = l @ strip s @ r \<and> list_all isspace l \<and> list_all isspace r"
proof -
  have "list_all isspace (takeWhile isspace s)"
    by (auto simp: list_all_iff dest: set_takeWhileD)
  moreover have "list_all isspace (rev (takeWhile isspace (rev (dropWhile isspace s))))"
    by (auto simp: list_all_iff dest: set_takeWhileD)
  ultimately show ?thesis using strip_decomp [of s] by blast
qed

lemma strip_last: "strip s \<noteq> [] \<Longrightarrow> \<not> isspace (last (strip s))"
  by (simp add: strip_def last_rev hd_dropWhile)

lemma strip_hd:
  assumes "strip s \<noteq> []"
  shows "\<not> isspace (hd (strip s))"
proof -
  let ?d = "dropWhile isspace s"
  have d: "?d = strip s @ rev (takeWhile isspace (rev ?d))"
    using strip_decomp [of s] by (metis takeWhile_dropWhile_id same_append_eq)
  then have "?d \<noteq> []" using assms by (metis Nil_is_append_conv)
  then have "\<not> isspace (hd ?d)" by (rule hd_dropWhile)
  moreover have "hd ?d = hd (strip s)" using d assms by (metis hd_append2)
  ultimately show ?thesis by simp
qed

lemma get_access_token_zero:
  "get_access_token (Exited 0 (Text out)) = ([SubprocessRun helper_argv], Inr (Some (strip out)))"
  by (simp add: get_access_token_def)

subsection \<open>The runs of the script\<close>

lemma station_analysis_eq:
  "station_analysis df =
     (if ''station_number'' \<in> set (columns df)
      then ([Figure (12, 6),
             BarPlot (take 10 (value_counts (column df ''station_number'')))
               [(''kind'', ''bar''), (''color'', ''steelblue''), (''alpha'', ''0.8'')],
             Title ''Top 10 Weather Stations by Number of Records'',
             Xlabel ''Station ID'',
             Ylabel ''Number of Records'',
             Xticks [(''rotation'', ''45''), (''ha'', ''right'')],
             Grid [(''axis'', ''y''), (''alpha'', ''0.3'')],
             TightLayout,
             Show,
             Print (MsgUniqueStations (nunique (column df ''station_number''))),
             Print MsgTopStations] @
            print_top_stations (take 10 (value_counts (column df ''station_number''))), None)
      else ([], None))"
  by (simp add: station_analysis_def getitem_present Let_def)

lemma print_top_stations_lines:
  "e \<in> set (print_top_stations ts) \<Longrightarrow> \<exists>i s c. e = Print (MsgStationLine i s c)"
  by (auto simp: print_top_stations_def)

lemma print_top_stations_filter:
  "(\<And>i s c. \<not> P (Print (MsgStationLine i s c))) \<Longrightarrow> filter P (print_top_stations ts) = []"
  by (auto simp: filter_empty_conv dest: print_top_stations_lines)

lemma script_with_token:
  assumes "token_obtained w"
  shows "\<exists>tok. script w =
           (fst (startup w) @ SubprocessRun helper_argv # fst (with_token tok (query_result w)),
            snd (with_token tok (query_result w)))"
proof -
  from assms obtain out where "snd (startup w) = None" "helper w = Exited 0 (Text out)" "strip out \<noteq> []"
    by (auto simp: token_obtained_def split: process.splits captured.splits)
  then show ?thesis
    by (auto simp: script_started main_token)
qed

lemma with_token_analysis:
  "with_token tok (Returns df) =
     (fst (make_client tok) @ [Query query, ToDataframe] @ analysis df, None)"
  by (simp add: with_token_returns analysis_def)

lemma script_success:
  assumes "token_obtained w" and "query_result w = Returns df"
  shows "\<exists>tok. script w =
           (fst (startup w) @ SubprocessRun helper_argv # fst (make_client tok) @
            [Query query, ToDataframe] @ analysis df, None)"
  using script_with_token [OF assms(1)] assms(2) by (simp add: with_token_analysis)

lemma histogram_events:
  "e \<in> set (fst (temperature df)) \<Longrightarrow> on_axes e"
  "e \<in> set (fst (precipitation df)) \<Longrightarrow> on_axes e"
  "e \<in> set (fst (wind_speed df)) \<Longrightarrow> on_axes e"
  "e \<in> set (fst (visibility df)) \<Longrightarrow> on_axes e"
  by (auto simp: temperature_eq precipitation_eq wind_speed_eq visibility_eq split: if_splits)

lemma on_axes_is_plot: "on_axes e \<Longrightarrow> is_plot e"
  by (cases e) simp_all

lemma station_analysis_events:
  "e \<in> set (fst (station_analysis df)) \<Longrightarrow> is_plot e \<or> (\<exists>m. e = Print m)"
  by (auto simp: station_analysis_eq dest: print_top_stations_lines split: if_splits)

lemma analysis_events:
  assumes "e \<in> set (analysis df)"
  shows "is_plot e \<or> is_summary e \<or> (\<exists>m. e = Print m)"
proof -
  from assms consider
      "e \<in> set (fst (summarize df))" | "e \<in> set (fst (open_figure df))"
    | "e \<in> set (fst (temperature df))" | "e \<in> set (fst (precipitation df))"
    | "e \<in> set (fst (wind_speed df))" | "e \<in> set (fst (visibility df))"
    | "e \<in> set (fst (show_figure df))" | "e \<in> set (fst (station_analysis df))"
    | "e = Print MsgComplete"
    unfolding analysis_def by auto
  then show ?thesis
  proof cases
    case 1
    then show ?thesis by (auto simp: summarize_def)
  next
    case 2
    then show ?thesis by (auto simp: open_figure_def)
  next
    case 7
    then show ?thesis by (auto simp: show_figure_def)
  next
    case 8
    then show ?thesis using station_analysis_events by blast
  qed (auto dest: histogram_events on_axes_is_plot)
qed

lemma analysis_quiet:
  "SubprocessRun a \<notin> set (analysis df)" "Query q \<notin> set (analysis df)"
  "ToDataframe \<notin> set (analysis df)" "CheckCall a \<notin> set (analysis df)"
  using analysis_events [of "SubprocessRun a" df] analysis_events [of "Query q" df]
    analysis_events [of ToDataframe df] analysis_events [of "CheckCall a" df]
  by auto

lemma queries_append: "queries (xs @ ys) = queries xs @ queries ys"
  by (simp add: queries_def)

lemma queries_none: "(\<And>q. Query q \<notin> set t) \<Longrightarrow> queries t = []"
  unfolding queries_def by (induction t) (auto split: event.splits)

lemma startup_queries: "queries (fst (startup w)) = []"
  using startup_events [of w] by (auto simp: queries_def setup_plotting_def)

lemma startup_fetch: "count_list (fst (startup w)) ToDataframe = 0"
  using startup_events [of w] by (auto simp: setup_plotting_def)

text \<open>Every run without a token is one of four.\<close>

lemma script_without_token:
  assumes "\<not> token_obtained w"
  shows "script w = startup w \<or>
         (\<exists>e. script w = (fst (startup w) @ [SubprocessRun helper_argv], Some e)) \<or>
         (\<exists>m. script w =
            (fst (startup w) @ [SubprocessRun helper_argv, Print (MsgError m), Print MsgFailed],
             None)) \<or>
         script w = (fst (startup w) @ [SubprocessRun helper_argv, Print MsgFailed], None)"
proof (cases "snd (startup w)")
  case (Some e)
  then show ?thesis by (simp add: script_stopped)
next
  case None
  show ?thesis
  proof (cases "helper w")
    case (CannotLaunch e)
    then show ?thesis using None by (simp add: script_started main_cannot_launch)
  next
    case (Exited rc captured)
    show ?thesis
    proof (cases captured)
      case Undecodable
      then show ?thesis
        using None Exited by (simp add: script_started main_undecodable)
    next
      case (Text out)
      show ?thesis
      proof (cases "rc = 0")
        case True
        then have "strip out = []"
          using assms None Exited Text by (simp add: token_obtained_def)
        then show ?thesis
          using None Exited Text True by (simp add: script_started main_blank)
      next
        case False
        then show ?thesis
          using None Exited Text by (simp add: script_started main_nonzero)
      qed
    qed
  qed
qed

text \<open>Every run with a token is one of three.\<close>

lemma script_token_cases:
  assumes "token_obtained w"
  shows "\<exists>tok.
           script w =
             (fst (startup w) @ SubprocessRun helper_argv # fst (make_client tok) @ [Query query],
              Some QueryFailed) \<or>
           script w =
             (fst (startup w) @ SubprocessRun helper_argv # fst (make_client tok) @
              [Query query, ToDataframe], Some FetchFailed) \<or>
           (\<exists>df. query_result w = Returns df \<and>
              script w =
                (fst (startup w) @ SubprocessRun helper_argv # fst (make_client tok) @
                 [Query query, ToDataframe] @ analysis df, None))"
proof -
  from script_with_token [OF assms] obtain tok where
    s: "script w =
          (fst (startup w) @ SubprocessRun helper_argv # fst (with_token tok (query_result w)),
           snd (with_token tok (query_result w)))"
    by blast
  show ?thesis
    by (cases "query_result w")
       (auto simp: s with_token_query_raises with_token_fetch_raises with_token_analysis)
qed

lemma script_helper_count: "count_list (fst (script w)) (SubprocessRun helper_argv) \<le> 1"
proof (cases "token_obtained w")
  case True
  from script_token_cases [OF True] show ?thesis
    by (auto simp: startup_helper make_client_def analysis_quiet)
next
  case False
  from script_without_token [OF False] show ?thesis
    by (auto simp: startup_helper)
qed

lemma script_queries: "queries (fst (script w)) = (if token_obtained w then [query] else [])"
proof (cases "token_obtained w")
  case True
  have "queries (analysis df) = []" for df :: "'a dataframe"
    by (rule queries_none) (rule analysis_quiet)
  with script_token_cases [OF True] show ?thesis
    using True by (auto simp: queries_append startup_queries make_client_def)
       (simp_all add: queries_def)
next
  case False
  from script_without_token [OF False] show ?thesis
    using False by (auto simp: queries_append startup_queries) (simp_all add: queries_def)
qed

lemma script_fetch_count: "count_list (fst (script w)) ToDataframe \<le> 1"
proof (cases "token_obtained w")
  case True
  from script_token_cases [OF True] show ?thesis
    by (auto simp: startup_fetch make_client_def analysis_quiet)
next
  case False
  from script_without_token [OF False] show ?thesis
    by (auto simp: startup_fetch)
qed

subsection \<open>Concrete runs\<close>

lemma startup_plain:
  "pandas_importable w \<Longrightarrow> imports_ok w \<Longrightarrow>
   startup w =
     ([FilterWarnings ''ignore'', StyleUse ''default'', SetPalette ''husl'',
       RcParams ''figure.figsize'' (12, 8)], None)"
  by (simp add: startup_def install_packages_def import_modules_def setup_plotting_def)

lemma sample_token_obtained: "token_obtained sample_world"
  by (simp add: token_obtained_def startup_plain sample_world_def strip_def isspace_def)

lemma sample_query_result: "query_result sample_world = Returns sample_table"
  by (simp add: sample_world_def)

lemma startup_filter:
  assumes "\<And>e. P e \<Longrightarrow> is_work e"
  shows "filter P (fst (startup w)) = []"
proof -
  have "\<forall>e \<in> set (fst (startup w)). \<not> is_work e"
    using startup_work [of w] by (simp add: filter_empty_conv)
  then show ?thesis
    using assms by (auto simp: filter_empty_conv)
qed

subsection \<open>Paths\<close>



lemma starts_startup: "(snd (startup w) = None) = starts w"
  by (cases "pip w";
      simp add: startup_def install_packages_def import_modules_def setup_plotting_def
        run_steps_Cons exits_zero_def starts_def)


lemma guard_token: "guard w = token_obtained w"
  by (simp add: guard_def token_obtained_def starts_startup get_access_token_def truthy_def
      split: process.splits captured.splits)






















subsection \<open>The summary\<close>

lemma script_summary:
  fixes w :: "'v world"
  assumes "token_obtained w" and "query_result w = Returns df"
  shows "filter is_summary (fst (script w)) =
           [Print (MsgRetrieved (len df)), Print (MsgColumns (columns df)),
            Print (MsgHead (head df)), DfInfo df, Print (MsgDescribe df)]"
proof -
  from script_success [OF assms] obtain tok where
    s: "script w =
          (fst (startup w) @ SubprocessRun helper_argv # fst (make_client tok) @
           [Query query, ToDataframe] @ analysis df, None)" ..
  have "filter is_summary (fst (startup w)) = []"
    by (rule startup_filter) (simp add: is_work_def)
  moreover have "filter is_summary (fst (temperature df)) = []"
    "filter is_summary (fst (precipitation df)) = []"
    "filter is_summary (fst (wind_speed df)) = []"
    "filter is_summary (fst (visibility df)) = []"
    "filter is_summary (fst (station_analysis df)) = []"
    by (simp_all add: temperature_eq precipitation_eq wind_speed_eq visibility_eq
        station_analysis_eq print_top_stations_filter)
  ultimately show ?thesis
    by (simp add: s analysis_def make_client_def summarize_def open_figure_def
        show_figure_def)
qed

subsection \<open>The claims\<close>

text \<open>
  Claim C1, as amended. When the helper exits with a non-zero status and what it wrote
  decodes as text, \<^verbatim>\<open>get_access_token\<close> prints the error and returns \<^verbatim>\<open>None\<close>; the script
  then prints the failure message and ends. No client is built, no query is submitted,
  nothing is summarized or plotted, and the two messages are all that is printed.
\<close>

theorem helper_failure_skips_all_work:
  fixes w :: "'v world"
  assumes "snd (startup w) = None" and "helper w = Exited rc (Text out)" and "rc \<noteq> 0"
  shows "get_access_token (helper w) =
           ([SubprocessRun helper_argv,
             Print (MsgError (CalledProcessError helper_argv rc)) :: 'v event], Inr None) \<and>
         script w =
           (fst (startup w) @
            [SubprocessRun helper_argv, Print (MsgError (CalledProcessError helper_argv rc)),
             Print MsgFailed], None) \<and>
         printed (fst (script w)) = [MsgError (CalledProcessError helper_argv rc), MsgFailed] \<and>
         filter is_work (fst (script w)) = []"
  using assms
  by (simp add: script_started main_nonzero get_access_token_def startup_work
      printed_def [of "_ @ _"] startup_printed [unfolded printed_def] is_work_def)

theorem helper_failure_skips_all_work_witness:
  "script (sample_world\<lparr>helper := Exited 1 (Text [])\<rparr>) =
     ([FilterWarnings ''ignore'', StyleUse ''default'', SetPalette ''husl'',
       RcParams ''figure.figsize'' (12, 8), SubprocessRun helper_argv,
       Print (MsgError (CalledProcessError helper_argv 1)), Print MsgFailed], None) \<and>
   printed (fst (script (sample_world\<lparr>helper := Exited 1 (Text [])\<rparr>))) =
     [MsgError (CalledProcessError helper_argv 1), MsgFailed] \<and>
   filter is_work (fst (script (sample_world\<lparr>helper := Exited 1 (Text [])\<rparr>))) = []"
proof -
  let ?w = "sample_world\<lparr>helper := Exited 1 (Text [])\<rparr>"
  have s: "startup ?w =
     ([FilterWarnings ''ignore'', StyleUse ''default'', SetPalette ''husl'',
       RcParams ''figure.figsize'' (12, 8)], None)"
    by (rule startup_plain) (simp_all add: sample_world_def)
  have "snd (startup ?w) = None" "helper ?w = Exited 1 (Text [])" "(1::int) \<noteq> 0"
    by (simp_all add: s)
  from helper_failure_skips_all_work [OF this] show ?thesis
    by (simp add: s printed_def is_work_def)
qed

text \<open>
  Claim C1 as it was stated, for every exit with a non-zero status, fails when the helper
  exits with status 1 having written bytes that are no text: the captured output is
  decoded before the status is looked at, so \<^verbatim>\<open>UnicodeDecodeError\<close> leaves
  \<^verbatim>\<open>get_access_token\<close>, which returns nothing, and ends the script; neither the error line
  nor the failure message is printed.
\<close>

theorem undecodable_failure_ends_the_script:
  "snd (get_access_token (Exited 1 Undecodable)
        :: nat event list \<times> (exn + pystr option)) = Inl UnicodeDecodeError \<and>
   script (sample_world\<lparr>helper := Exited 1 Undecodable\<rparr>) =
     ([FilterWarnings ''ignore'', StyleUse ''default'', SetPalette ''husl'',
       RcParams ''figure.figsize'' (12, 8), SubprocessRun helper_argv],
      Some UnicodeDecodeError) \<and>
   printed (fst (script (sample_world\<lparr>helper := Exited 1 Undecodable\<rparr>))) = []"
proof -
  let ?w = "sample_world\<lparr>helper := Exited 1 Undecodable\<rparr>"
  have s: "startup ?w =
     ([FilterWarnings ''ignore'', StyleUse ''default'', SetPalette ''husl'',
       RcParams ''figure.figsize'' (12, 8)], None)"
    by (rule startup_plain) (simp_all add: sample_world_def)
  have "script ?w =
     ([FilterWarnings ''ignore'', StyleUse ''default'', SetPalette ''husl'',
       RcParams ''figure.figsize'' (12, 8), SubprocessRun helper_argv],
      Some UnicodeDecodeError)"
    by (simp add: script_started s main_undecodable [of ?w 1])
  then show ?thesis
    by (simp add: get_access_token_def printed_def)
qed

text \<open>
  Claim C2, as amended. The helper is started with the command line
  \<^verbatim>\<open>coder external-auth access-token gcp\<close>. When it exits with status zero,
  \<^verbatim>\<open>get_access_token\<close> returns its standard output with the whitespace at both ends
  removed: the output is the token between two runs of whitespace, and the token, unless
  empty, neither starts nor ends with whitespace.
\<close>

theorem token_is_stripped_output:
  "get_access_token (Exited 0 (Text out)) =
     ([SubprocessRun helper_argv :: 'v event], Inr (Some (strip out))) \<and>
   helper_argv = [''coder'', ''external-auth'', ''access-token'', ''gcp''] \<and>
   (\<exists>l r. out = l @ strip out @ r \<and> list_all isspace l \<and> list_all isspace r) \<and>
   (strip out = [] \<or> (\<not> isspace (hd (strip out)) \<and> \<not> isspace (last (strip out))))"
  using strip_surrounded [of out] strip_hd [of out] strip_last [of out]
  by (auto simp: get_access_token_zero helper_argv_def)

theorem token_is_stripped_output_witness:
  "get_access_token (Exited 0 (Text [116, 111, 107, 10])) =
     ([SubprocessRun helper_argv :: unit event], Inr (Some [116, 111, 107]))"
  using token_is_stripped_output [where 'v = unit, of "[116, 111, 107, 10]"]
  by (simp add: strip_def isspace_def)

text \<open>
  Claim C2 as it was stated, that the value returned is the standard output itself, fails
  on any output that ends with a line break: for the output \<^verbatim>\<open>tok\<close> followed by a line
  feed the token is \<^verbatim>\<open>tok\<close>.
\<close>

theorem token_is_not_raw_output:
  "snd (get_access_token (Exited 0 (Text [116, 111, 107, 10]))
        :: unit event list \<times> (exn + pystr option)) = Inr (Some [116, 111, 107]) \<and>
   snd (get_access_token (Exited 0 (Text [116, 111, 107, 10]))
        :: unit event list \<times> (exn + pystr option)) \<noteq> Inr (Some [116, 111, 107, 10])"
  by (simp add: get_access_token_def strip_def isspace_def)

text \<open>
  Claim C3. The only query text the script ever submits is the constant \<open>query\<close>, which
  reads \<^verbatim>\<open>SELECT * FROM bigquery-public-data.samples.gsod LIMIT 500\<close> once its line breaks,
  indentation and backquotes are set aside. It is submitted once when the token is
  obtained and not at all otherwise. When the service returns a table, the conversion to a
  dataframe follows the submission, and the table is what the next statement reads.
\<close>

theorem one_fixed_query:
  "queries (fst (script w)) = (if token_obtained w then [query] else []) \<and>
   split_ws [] (filter (\<lambda>c. c \<noteq> CHR 0x60) query) =
     [''SELECT'', ''*'', ''FROM'', ''bigquery-public-data.samples.gsod'', ''LIMIT'', ''500''] \<and>
   run_query (Returns df) = ([Query query, ToDataframe], Inr df) \<and>
   (token_obtained w \<and> query_result w = Returns df \<longrightarrow>
      (\<exists>pre post. fst (script w) =
         pre @ [Query query, ToDataframe, Print (MsgRetrieved (len df))] @ post))"
proof -
  have "\<exists>pre post. fst (script w) =
         pre @ [Query query, ToDataframe, Print (MsgRetrieved (len df))] @ post"
    if "token_obtained w" "query_result w = Returns df"
  proof -
    from script_success [OF that] obtain tok where
      "script w =
         (fst (startup w) @ SubprocessRun helper_argv # fst (make_client tok) @
          [Query query, ToDataframe] @ analysis df, None)" ..
    then have "fst (script w) =
         (fst (startup w) @ SubprocessRun helper_argv # fst (make_client tok)) @
         [Query query, ToDataframe, Print (MsgRetrieved (len df))] @ tl (analysis df)"
      by (simp add: analysis_def summarize_def)
    then show ?thesis by blast
  qed
  moreover have "split_ws [] (filter (\<lambda>c. c \<noteq> CHR 0x60) query) =
     [''SELECT'', ''*'', ''FROM'', ''bigquery-public-data.samples.gsod'', ''LIMIT'', ''500'']"
    by (simp add: query_def)
  ultimately show ?thesis
    by (simp add: script_queries run_query_def)
qed

theorem one_fixed_query_witness:
  "token_obtained sample_world \<and> query_result sample_world = Returns sample_table \<and>
   queries (fst (script sample_world)) = [query] \<and>
   (\<exists>pre post. fst (script sample_world) =
      pre @ [Query query, ToDataframe, Print (MsgRetrieved 4)] @ post)"
  using one_fixed_query [of sample_world sample_table]
  by (simp add: sample_token_obtained sample_query_result len_def sample_table_def)

text \<open>
  Claim C4, as amended. After a successful query the script shows the table five times, in
  this order: the number of rows retrieved (\<^verbatim>\<open>len(df)\<close>, not the shape), the list of
  columns, the first five rows, the \<^verbatim>\<open>info\<close> listing of the column types, and the
  descriptive statistics. The statements stand directly after the query, each but the
  first two under a heading, and before the first plotting call.
\<close>

theorem summary_order:
  fixes w :: "'v world"
  assumes "token_obtained w" and "query_result w = Returns df"
  shows "filter is_summary (fst (script w)) =
           [Print (MsgRetrieved (len df)), Print (MsgColumns (columns df)),
            Print (MsgHead (head df)), DfInfo df, Print (MsgDescribe df)] \<and>
         (\<exists>pre post. fst (script w) =
            pre @
            [Query query, ToDataframe,
             Print (MsgRetrieved (len df)), Print (MsgColumns (columns df)),
             Print MsgFirstRows, Print (MsgHead (head df)),
             Print MsgDatasetInfo, DfInfo df,
             Print MsgStatSummary, Print (MsgDescribe df),
             Subplots 2 2 (15, 10)] @ post)"
proof -
  from script_success [OF assms] obtain tok where
    s: "script w =
          (fst (startup w) @ SubprocessRun helper_argv # fst (make_client tok) @
           [Query query, ToDataframe] @ analysis df, None)" ..
  have "fst (script w) =
            (fst (startup w) @ SubprocessRun helper_argv # fst (make_client tok)) @
            [Query query, ToDataframe,
             Print (MsgRetrieved (len df)), Print (MsgColumns (columns df)),
             Print MsgFirstRows, Print (MsgHead (head df)),
             Print MsgDatasetInfo, DfInfo df,
             Print MsgStatSummary, Print (MsgDescribe df),
             Subplots 2 2 (15, 10)] @
            tl (fst (open_figure df)) @ fst (temperature df) @ fst (precipitation df) @
            fst (wind_speed df) @ fst (visibility df) @ fst (show_figure df) @
            fst (station_analysis df) @ [Print MsgComplete]"
    by (simp add: s analysis_def summarize_def open_figure_def)
  with script_summary [OF assms] show ?thesis by blast
qed

theorem summary_order_witness:
  "token_obtained (sample_world\<lparr>query_result := Returns long_table\<rparr>) \<and>
   query_result (sample_world\<lparr>query_result := Returns long_table\<rparr>) = Returns long_table \<and>
   filter is_summary (fst (script (sample_world\<lparr>query_result := Returns long_table\<rparr>))) =
     [Print (MsgRetrieved 6), Print (MsgColumns [''year'']),
      Print (MsgHead \<lparr>nrows = 5, cols = [(''year'', [Some 1, Some 2, Some 3, Some 4, Some 5])]\<rparr>),
      DfInfo long_table, Print (MsgDescribe long_table)]"
proof -
  let ?w = "sample_world\<lparr>query_result := Returns long_table\<rparr>"
  have t: "token_obtained ?w"
    by (simp add: token_obtained_def startup_plain sample_world_def strip_def isspace_def)
  have q: "query_result ?w = Returns long_table"
    by simp
  from summary_order [OF t q] show ?thesis
    using t by (simp add: len_def columns_def head_def long_table_def)
qed

text \<open>
  Claim C4 as it was stated, that the first thing shown is the shape of the table, fails:
  line 62 prints the number of rows only. A table of four rows and two columns and a table
  of four rows and one column have different shapes, and the first output of the summary
  is the same for both.
\<close>

theorem row_count_is_not_the_shape:
  "shape sample_table = (4, 2) \<and> shape narrow_table = (4, 1) \<and>
   hd (filter is_summary (fst (script sample_world))) = Print (MsgRetrieved 4) \<and>
   hd (filter is_summary (fst (script (sample_world\<lparr>query_result := Returns narrow_table\<rparr>)))) =
     Print (MsgRetrieved 4)"
proof -
  let ?w = "sample_world\<lparr>query_result := Returns narrow_table\<rparr>"
  have t: "token_obtained ?w"
    by (simp add: token_obtained_def startup_plain sample_world_def strip_def isspace_def)
  have q: "query_result ?w = Returns narrow_table"
    by simp
  show ?thesis
    using script_summary [OF sample_token_obtained sample_query_result] script_summary [OF t q]
    by (simp add: shape_def len_def sample_table_def narrow_table_def)
qed

text \<open>
  Claim C5. After a successful query the charts drawn are, in this order and each only if
  its column is among the columns of the table: the histogram of \<^verbatim>\<open>mean_temp\<close> at the top
  left of the grid, of \<^verbatim>\<open>total_precipitation\<close> at the top right, of \<^verbatim>\<open>mean_wind_speed\<close> at
  the bottom left, of \<^verbatim>\<open>mean_visibility\<close> at the bottom right, and the bar chart of the
  \<^verbatim>\<open>station_number\<close> counts. So there are at most five, and the grid of two rows and two
  columns is made before the first of them.
\<close>

theorem charts_follow_columns:
  fixes w :: "'v world"
  assumes "token_obtained w" and "query_result w = Returns df"
  shows "filter is_chart (fst (script w)) =
           (if ''mean_temp'' \<in> set (columns df)
            then [Hist (0, 0) (notna (column df ''mean_temp'')) (hist_kwargs ''skyblue'')]
            else []) @
           (if ''total_precipitation'' \<in> set (columns df)
            then [Hist (0, 1) (notna (column df ''total_precipitation''))
                    (hist_kwargs ''lightgreen'')]
            else []) @
           (if ''mean_wind_speed'' \<in> set (columns df)
            then [Hist (1, 0) (notna (column df ''mean_wind_speed'')) (hist_kwargs ''coral'')]
            else []) @
           (if ''mean_visibility'' \<in> set (columns df)
            then [Hist (1, 1) (notna (column df ''mean_visibility'')) (hist_kwargs ''gold'')]
            else []) @
           (if ''station_number'' \<in> set (columns df)
            then [BarPlot (take 10 (value_counts (column df ''station_number'')))
                    [(''kind'', ''bar''), (''color'', ''steelblue''), (''alpha'', ''0.8'')]]
            else []) \<and>
         length (filter is_chart (fst (script w))) \<le> 5 \<and>
         (\<exists>pre post. fst (script w) = pre @ Subplots 2 2 (15, 10) # post \<and>
            filter is_chart pre = [])"
proof -
  from script_success [OF assms] obtain tok where
    s: "script w =
          (fst (startup w) @ SubprocessRun helper_argv # fst (make_client tok) @
           [Query query, ToDataframe] @ analysis df, None)" ..
  have start: "filter is_chart (fst (startup w)) = []"
    by (rule startup_filter) (auto simp: is_work_def elim: is_chart.elims)
  have t: "filter is_chart (fst (temperature df)) =
           (if ''mean_temp'' \<in> set (columns df)
            then [Hist (0, 0) (notna (column df ''mean_temp'')) (hist_kwargs ''skyblue'')]
            else [])"
    by (simp add: temperature_eq)
  have p: "filter is_chart (fst (precipitation df)) =
           (if ''total_precipitation'' \<in> set (columns df)
            then [Hist (0, 1) (notna (column df ''total_precipitation''))
                    (hist_kwargs ''lightgreen'')]
            else [])"
    by (simp add: precipitation_eq)
  have ws: "filter is_chart (fst (wind_speed df)) =
           (if ''mean_wind_speed'' \<in> set (columns df)
            then [Hist (1, 0) (notna (column df ''mean_wind_speed'')) (hist_kwargs ''coral'')]
            else [])"
    by (simp add: wind_speed_eq)
  have v: "filter is_chart (fst (visibility df)) =
           (if ''mean_visibility'' \<in> set (columns df)
            then [Hist (1, 1) (notna (column df ''mean_visibility'')) (hist_kwargs ''gold'')]
            else [])"
    by (simp add: visibility_eq)
  have st: "filter is_chart (fst (station_analysis df)) =
           (if ''station_number'' \<in> set (columns df)
            then [BarPlot (take 10 (value_counts (column df ''station_number'')))
                    [(''kind'', ''bar''), (''color'', ''steelblue''), (''alpha'', ''0.8'')]]
            else [])"
    by (simp add: station_analysis_eq print_top_stations_filter)
  have charts: "filter is_chart (fst (script w)) =
      filter is_chart (fst (temperature df)) @ filter is_chart (fst (precipitation df)) @
      filter is_chart (fst (wind_speed df)) @ filter is_chart (fst (visibility df)) @
      filter is_chart (fst (station_analysis df))"
    by (simp add: s start analysis_def make_client_def summarize_def open_figure_def
        show_figure_def)
  have five: "length (filter is_chart (fst (script w))) \<le> 5"
    unfolding charts t p ws v st by simp
  have "fst (script w) =
          (fst (startup w) @ SubprocessRun helper_argv # fst (make_client tok) @
           [Query query, ToDataframe] @ fst (summarize df)) @
          Subplots 2 2 (15, 10) #
          (tl (fst (open_figure df)) @ fst (temperature df) @ fst (precipitation df) @
           fst (wind_speed df) @ fst (visibility df) @ fst (show_figure df) @
           fst (station_analysis df) @ [Print MsgComplete])"
    by (simp add: s analysis_def open_figure_def)
  moreover have "filter is_chart
          (fst (startup w) @ SubprocessRun helper_argv # fst (make_client tok) @
           [Query query, ToDataframe] @ fst (summarize df)) = []"
    by (simp add: start make_client_def summarize_def)
  ultimately have grid: "\<exists>pre post. fst (script w) = pre @ Subplots 2 2 (15, 10) # post \<and>
            filter is_chart pre = []"
    by blast
  show ?thesis
    using five grid unfolding charts t p ws v st by blast
qed

theorem charts_follow_columns_witness:
  "token_obtained sample_world \<and> query_result sample_world = Returns sample_table \<and>
   filter is_chart (fst (script sample_world)) =
     [Hist (0, 0) [1, 2, 3] (hist_kwargs ''skyblue''),
      BarPlot [(7, 2), (9, 2)]
        [(''kind'', ''bar''), (''color'', ''steelblue''), (''alpha'', ''0.8'')]]"
  using charts_follow_columns [OF sample_token_obtained sample_query_result]
  by (simp add: sample_token_obtained sample_query_result columns_def column_def getitem_def
      notna_def value_counts_def unique_def sample_table_def)




text \<open>
  Claim C7. In every run, whatever the world answers, the helper is started at most once,
  at most one query is submitted and the result is converted at most once: nothing is
  tried again, the token is not asked for a second time, and the result is not fetched in
  pieces by the script.
\<close>

theorem no_retry:
  fixes w :: "'v world"
  shows "count_list (fst (script w)) (SubprocessRun helper_argv) \<le> 1 \<and>
         length (queries (fst (script w))) \<le> 1 \<and>
         count_list (fst (script w)) ToDataframe \<le> 1"
  using script_helper_count [of w] script_fetch_count [of w]
  by (simp add: script_queries)

theorem no_retry_witness:
  "count_list (fst (script (sample_world\<lparr>query_result := QueryRaises\<rparr>)))
     (SubprocessRun helper_argv) \<le> 1 \<and>
   length (queries (fst (script (sample_world\<lparr>query_result := QueryRaises\<rparr>)))) \<le> 1 \<and>
   count_list (fst (script (sample_world\<lparr>helper := Exited 1 (Text [])\<rparr>)))
     (SubprocessRun helper_argv) \<le> 1"
  using no_retry [of "sample_world\<lparr>query_result := QueryRaises\<rparr>"]
    no_retry [of "sample_world\<lparr>helper := Exited 1 (Text [])\<rparr>"]
  by simp

text \<open>
  Claim C8. The token is the helper's standard output with the whitespace at both ends
  stripped. So when the helper exits with status zero and its output is empty or all
  whitespace, \<^verbatim>\<open>get_access_token\<close> returns the empty string; the guard is false for it as
  it is for \<^verbatim>\<open>None\<close>; the script prints the failure message and ends, having done none of
  the guarded work.
\<close>

theorem blank_output_counts_as_failure:
  fixes w :: "'v world"
  assumes "snd (startup w) = None" and "helper w = Exited 0 (Text out)" and "list_all isspace out"
  shows "snd (get_access_token (Exited 0 (Text s)) :: 'v event list \<times> (exn + pystr option)) =
           Inr (Some (strip s)) \<and>
         get_access_token (helper w) = ([SubprocessRun helper_argv :: 'v event], Inr (Some [])) \<and>
         \<not> truthy (Some []) \<and> \<not> truthy None \<and>
         script w = (fst (startup w) @ [SubprocessRun helper_argv, Print MsgFailed], None) \<and>
         printed (fst (script w)) = [MsgFailed] \<and>
         filter is_work (fst (script w)) = []"
proof -
  have blank: "strip out = []"
    using assms(3) by (simp add: strip_blank)
  have run: "script w = (fst (startup w) @ [SubprocessRun helper_argv, Print MsgFailed], None)"
    using assms(1,2) blank by (simp add: script_started main_blank)
  have "printed (fst (script w)) = [MsgFailed]"
    using startup_printed [of w] by (simp add: run printed_def)
  moreover have "filter is_work (fst (script w)) = []"
    by (simp add: run startup_work is_work_def)
  ultimately show ?thesis
    using assms(2) blank run by (simp add: get_access_token_zero truthy_def)
qed

theorem blank_output_counts_as_failure_witness:
  "list_all isspace [32, 10] \<and>
   script (sample_world\<lparr>helper := Exited 0 (Text [32, 10])\<rparr>) =
     ([FilterWarnings ''ignore'', StyleUse ''default'', SetPalette ''husl'',
       RcParams ''figure.figsize'' (12, 8), SubprocessRun helper_argv, Print MsgFailed], None)"
proof -
  let ?w = "sample_world\<lparr>helper := Exited 0 (Text [32, 10])\<rparr>"
  have s: "startup ?w =
     ([FilterWarnings ''ignore'', StyleUse ''default'', SetPalette ''husl'',
       RcParams ''figure.figsize'' (12, 8)], None)"
    by (rule startup_plain) (simp_all add: sample_world_def)
  have "snd (startup ?w) = None" "helper ?w = Exited 0 (Text [32, 10])" "list_all isspace [32, 10]"
    by (simp_all add: s isspace_def)
  from blank_output_counts_as_failure [OF this] show ?thesis
    by (simp add: s isspace_def)
qed

text \<open>
  Claim C9. \<^verbatim>\<open>get_access_token\<close> returns \<^verbatim>\<open>None\<close> exactly when the helper ran, wrote
  text, and exited with a non-zero status: that is the one exception it catches. When the helper cannot be
  launched the \<^verbatim>\<open>OSError\<close> leaves the function and ends the script; nothing has been
  printed, neither the error line nor the failure message.
\<close>

theorem launch_failure_propagates:
  fixes w :: "'v world"
  assumes "snd (startup w) = None" and "helper w = CannotLaunch e"
  shows "(snd (get_access_token p :: 'v event list \<times> (exn + pystr option)) = Inr None) =
           (case p of
              CannotLaunch x \<Rightarrow> False
            | Exited rc Undecodable \<Rightarrow> False
            | Exited rc (Text out) \<Rightarrow> rc \<noteq> 0) \<and>
         get_access_token (helper w) = ([SubprocessRun helper_argv :: 'v event], Inl (OSError e)) \<and>
         script w = (fst (startup w) @ [SubprocessRun helper_argv], Some (OSError e)) \<and>
         printed (fst (script w)) = []"
proof -
  have run: "script w = (fst (startup w) @ [SubprocessRun helper_argv], Some (OSError e))"
    using assms by (simp add: script_started main_cannot_launch)
  have "printed (fst (script w)) = []"
    using startup_printed [of w] by (simp add: run printed_def)
  moreover have "(snd (get_access_token p :: 'v event list \<times> (exn + pystr option)) = Inr None) =
           (case p of
              CannotLaunch x \<Rightarrow> False
            | Exited rc Undecodable \<Rightarrow> False
            | Exited rc (Text out) \<Rightarrow> rc \<noteq> 0)"
    by (simp add: get_access_token_def split: process.splits captured.splits)
  ultimately show ?thesis
    using assms(2) run by (simp add: get_access_token_def)
qed

theorem launch_failure_propagates_witness:
  "script (sample_world\<lparr>helper := CannotLaunch FileNotFoundError\<rparr>) =
     ([FilterWarnings ''ignore'', StyleUse ''default'', SetPalette ''husl'',
       RcParams ''figure.figsize'' (12, 8), SubprocessRun helper_argv],
      Some (OSError FileNotFoundError)) \<and>
   printed (fst (script (sample_world\<lparr>helper := CannotLaunch FileNotFoundError\<rparr>))) = []"
proof -
  let ?w = "sample_world\<lparr>helper := CannotLaunch FileNotFoundError\<rparr>"
  have s: "startup ?w =
     ([FilterWarnings ''ignore'', StyleUse ''default'', SetPalette ''husl'',
       RcParams ''figure.figsize'' (12, 8)], None)"
    by (rule startup_plain) (simp_all add: sample_world_def)
  have "snd (startup ?w) = None" "helper ?w = CannotLaunch FileNotFoundError"
    by (simp_all add: s)
  from launch_failure_propagates [OF this] show ?thesis
    by (simp add: s printed_def)
qed

text \<open>
  Claim C10. After a successful query the figure with the grid is always made and always
  shown: the run contains the call that makes it and its title, then only calls on the four
  axes, then the layout call and \<^verbatim>\<open>show\<close>. No plotting call comes before. The calls on the
  axes are none at all exactly when none of the four columns is in the table, and then the
  figure is shown with its four axes empty.
\<close>

theorem figure_shown_unconditionally:
  fixes w :: "'v world"
  assumes "token_obtained w" and "query_result w = Returns df"
  shows "\<exists>pre mid post.
           fst (script w) =
             pre @ [Subplots 2 2 (15, 10), Suptitle ''Weather Data Analysis - GSOD Dataset'' 16] @
             mid @ [TightLayout, Show] @ post \<and>
           filter is_plot pre = [] \<and>
           list_all on_axes mid \<and>
           (mid = []) =
             (''mean_temp'' \<notin> set (columns df) \<and> ''total_precipitation'' \<notin> set (columns df) \<and>
              ''mean_wind_speed'' \<notin> set (columns df) \<and> ''mean_visibility'' \<notin> set (columns df))"
proof -
  from script_success [OF assms] obtain tok where
    s: "script w =
          (fst (startup w) @ SubprocessRun helper_argv # fst (make_client tok) @
           [Query query, ToDataframe] @ analysis df, None)" ..
  let ?pre = "fst (startup w) @ SubprocessRun helper_argv # fst (make_client tok) @
           [Query query, ToDataframe] @ fst (summarize df)"
  let ?mid = "fst (temperature df) @ fst (precipitation df) @ fst (wind_speed df) @
           fst (visibility df)"
  let ?post = "fst (station_analysis df) @ [Print MsgComplete]"
  have "fst (script w) =
          ?pre @ [Subplots 2 2 (15, 10), Suptitle ''Weather Data Analysis - GSOD Dataset'' 16] @
          ?mid @ [TightLayout, Show] @ ?post"
    by (simp add: s analysis_def open_figure_def show_figure_def)
  moreover have "filter is_plot (fst (startup w)) = []"
    by (rule startup_filter) (simp add: is_work_def)
  then have "filter is_plot ?pre = []"
    by (simp add: make_client_def summarize_def)
  moreover have "list_all on_axes ?mid"
    by (auto simp: list_all_iff dest: histogram_events)
  moreover have "(?mid = []) =
             (''mean_temp'' \<notin> set (columns df) \<and> ''total_precipitation'' \<notin> set (columns df) \<and>
              ''mean_wind_speed'' \<notin> set (columns df) \<and> ''mean_visibility'' \<notin> set (columns df))"
    by (simp add: temperature_eq precipitation_eq wind_speed_eq visibility_eq)
  ultimately show ?thesis by blast
qed

theorem figure_shown_unconditionally_witness:
  "token_obtained (sample_world\<lparr>query_result := Returns \<lparr>nrows = 0, cols = [(''year'', [])]\<rparr>\<rparr>) \<and>
   (\<exists>pre post.
      fst (script (sample_world\<lparr>query_result := Returns \<lparr>nrows = 0, cols = [(''year'', [])]\<rparr>\<rparr>)) =
        pre @ [Subplots 2 2 (15, 10), Suptitle ''Weather Data Analysis - GSOD Dataset'' 16,
               TightLayout, Show] @ post)"
proof -
  let ?df = "\<lparr>nrows = 0, cols = [(''year'', [])]\<rparr> :: nat dataframe"
  let ?w = "sample_world\<lparr>query_result := Returns ?df\<rparr>"
  have t: "token_obtained ?w"
    by (simp add: token_obtained_def startup_plain sample_world_def strip_def isspace_def)
  have q: "query_result ?w = Returns ?df"
    by simp
  from figure_shown_unconditionally [OF t q] show ?thesis
    using t by (auto simp: columns_def)
qed

end
